theory Spec2Isabelle
  imports Complex_Main "HOL-Library.Sublist"
begin

section \<open>Python values and the operations the services apply to them\<close>

text \<open>
  The services are Python: the request body, the remote translation response and everything
  passed between the pipeline steps are dynamically typed values decoded from JSON. A
  Python \<open>str\<close> is a list of characters (code points below 256); a \<open>dict\<close> decoded from
  JSON is an association list read with \<open>map_of\<close>. A \<open>float\<close> is kept as a real
  number: the code only tests it for zero.
\<close>

datatype json =
    JNull
  | JBool bool
  | JInt int
  | JFloat real
  | JStr string
  | JList "json list"
  | JObj "(string \<times> json) list"

text \<open>
  The errors the interpreter raises by itself (\<open>AttributeError\<close>, \<open>TypeError\<close>,
  \<open>KeyError\<close>, \<open>IndexError\<close>). No \<open>except\<close> clause of the program names one of
  these classes: only \<open>except Exception\<close> catches them.
\<close>

datatype fault =
    NoAttribute json string
  | NotContainer json
  | BadSubscript json json
  | KeyMissing json
  | IndexOutOfRange json
  | NoLen json

text \<open>
  The exceptions of the program, each with the text \<open>str(e)\<close> gives.
  \<open>Exception m\<close> stands for class \<open>Exception\<close> itself and for every subclass that
  no \<open>except\<close> clause of the program names. \<open>Timeout\<close> is
  \<open>requests.exceptions.Timeout\<close>; \<open>RequestException\<close> is any other
  \<open>requests.exceptions.RequestException\<close>. \<open>JSONDecodeError b m\<close> is what
  \<open>response.json()\<close> raises on a body that is not JSON; \<open>b\<close> tells whether the
  installed \<open>requests\<close> raises its own subclass, which is a \<open>RequestException\<close> too.
\<close>

datatype exn =
    ValueError string
  | TranslationError string
  | Exception string
  | Timeout string
  | RequestException string
  | JSONDecodeError bool string
  | Fault fault

datatype level = INFO | ERROR

text \<open>An outbound call \<open>requests.post(url, params=params, timeout=t)\<close> and what it returns:
  the status code and the outcome of \<open>response.json()\<close>.\<close>

datatype http_call = Post string "(string \<times> string) list" nat

datatype response = Response int "exn + json"

text \<open>\<open>client.chat.completions.create(messages=..., model=...)\<close>; the completion is kept as
  the list of \<open>choices[i].message.content\<close>.\<close>

datatype chat_call = ChatCreate "(string \<times> string) list list" string

datatype completion = ChatCompletion "json list"

text \<open>
  What the program does not contain: the API key read at start-up, Python's \<open>repr\<close>, the
  interpreter's wording of its own errors, the clock, and the two remote services. The
  clock and the services answer by the position of the call in the run, so that two
  identical calls may be answered differently.
\<close>

record env =
  api_key :: string
  py_repr :: "json \<Rightarrow> string"
  wording :: "fault \<Rightarrow> string"
  clock :: "nat \<Rightarrow> string"
  http_post :: "nat \<Rightarrow> http_call \<Rightarrow> exn + response"
  chat_create :: "nat \<Rightarrow> chat_call \<Rightarrow> exn + completion"

text \<open>
  The mutable state: the request counter of the \<open>TranslationService\<close> instance, the lines
  written to the loggers, and the outbound calls made so far.
\<close>

record world =
  request_id :: int
  log_lines :: "(level \<times> string) list"
  posts :: "http_call list"
  chats :: "chat_call list"

definition logger_info :: "string \<Rightarrow> world \<Rightarrow> world" where
  "logger_info m s = s\<lparr>log_lines := log_lines s @ [(INFO, m)]\<rparr>"

definition logger_error :: "string \<Rightarrow> world \<Rightarrow> world" where
  "logger_error m s = s\<lparr>log_lines := log_lines s @ [(ERROR, m)]\<rparr>"

fun py_truthy :: "json \<Rightarrow> bool" where
  "py_truthy JNull = False"
| "py_truthy (JBool b) = b"
| "py_truthy (JInt n) = (n \<noteq> 0)"
| "py_truthy (JFloat r) = (r \<noteq> 0)"
| "py_truthy (JStr t) = (t \<noteq> [])"
| "py_truthy (JList xs) = (xs \<noteq> [])"
| "py_truthy (JObj kvs) = (kvs \<noteq> [])"

fun is_str :: "json \<Rightarrow> bool" where
  "is_str (JStr t) = True"
| "is_str v = False"

fun is_dict :: "json \<Rightarrow> bool" where
  "is_dict (JObj kvs) = True"
| "is_dict v = False"

fun is_list :: "json \<Rightarrow> bool" where
  "is_list (JList xs) = True"
| "is_list v = False"

fun the_str :: "json \<Rightarrow> string" where
  "the_str (JStr t) = t"
| "the_str v = []"

text \<open>\<open>str(v)\<close>, as an f-string applies it: a \<open>str\<close> is itself, any other value its
  \<open>repr\<close>.\<close>

definition py_str :: "env \<Rightarrow> json \<Rightarrow> string" where
  "py_str E v = (case v of JStr t \<Rightarrow> t | _ \<Rightarrow> py_repr E v)"

fun str_exn :: "env \<Rightarrow> exn \<Rightarrow> string" where
  "str_exn E (ValueError m) = m"
| "str_exn E (TranslationError m) = m"
| "str_exn E (Exception m) = m"
| "str_exn E (Timeout m) = m"
| "str_exn E (RequestException m) = m"
| "str_exn E (JSONDecodeError b m) = m"
| "str_exn E (Fault f) = wording E f"

text \<open>\<open>str.strip()\<close>: the characters \<open>str.isspace\<close> accepts, among code points below 256.\<close>

definition is_space :: "char \<Rightarrow> bool" where
  "is_space c =
     (let n = (of_char c :: nat)
      in (9 \<le> n \<and> n \<le> 13) \<or> (28 \<le> n \<and> n \<le> 32) \<or> n = 133 \<or> n = 160)"

definition strip :: "string \<Rightarrow> string" where
  "strip t = rev (dropWhile is_space (rev (dropWhile is_space t)))"

fun is_substring :: "string \<Rightarrow> string \<Rightarrow> bool" where
  "is_substring k [] = (k = [])"
| "is_substring k (c # cs) = (prefix k (c # cs) \<or> is_substring k cs)"

text \<open>\<open>k in v\<close> for a string \<open>k\<close>: a key of a dict, a substring of a str, an element of
  a list; a \<open>TypeError\<close> on anything else.\<close>

fun py_contains :: "string \<Rightarrow> json \<Rightarrow> exn + bool" where
  "py_contains k (JObj kvs) = Inr (map_of kvs k \<noteq> None)"
| "py_contains k (JStr t) = Inr (is_substring k t)"
| "py_contains k (JList xs) = Inr (List.member xs (JStr k))"
| "py_contains k v = Inl (Fault (NotContainer v))"

text \<open>\<open>v[k]\<close> for a string \<open>k\<close>.\<close>

fun py_getitem :: "json \<Rightarrow> string \<Rightarrow> exn + json" where
  "py_getitem (JObj kvs) k =
     (case map_of kvs k of Some v \<Rightarrow> Inr v | None \<Rightarrow> Inl (Fault (KeyMissing (JStr k))))"
| "py_getitem v k = Inl (Fault (BadSubscript v (JStr k)))"

text \<open>\<open>v[0]\<close>.\<close>

fun py_first :: "json \<Rightarrow> exn + json" where
  "py_first (JList []) = Inl (Fault (IndexOutOfRange (JList [])))"
| "py_first (JList (x # xs)) = Inr x"
| "py_first (JStr []) = Inl (Fault (IndexOutOfRange (JStr [])))"
| "py_first (JStr (c # cs)) = Inr (JStr [c])"
| "py_first (JObj kvs) = Inl (Fault (KeyMissing (JInt 0)))"
| "py_first v = Inl (Fault (BadSubscript v (JInt 0)))"

text \<open>\<open>v.get(k, default)\<close>: only a dict has the method.\<close>

fun py_get :: "json \<Rightarrow> string \<Rightarrow> json \<Rightarrow> exn + json" where
  "py_get (JObj kvs) k d = Inr (case map_of kvs k of Some v \<Rightarrow> v | None \<Rightarrow> d)"
| "py_get v k d = Inl (Fault (NoAttribute v ''get''))"

text \<open>\<open>v[:100]\<close> and \<open>len(v)\<close>.\<close>

fun py_slice100 :: "json \<Rightarrow> exn + json" where
  "py_slice100 (JStr t) = Inr (JStr (take 100 t))"
| "py_slice100 (JList xs) = Inr (JList (take 100 xs))"
| "py_slice100 v = Inl (Fault (BadSubscript v JNull))"

fun py_len :: "json \<Rightarrow> exn + nat" where
  "py_len (JStr t) = Inr (length t)"
| "py_len (JList xs) = Inr (length xs)"
| "py_len (JObj kvs) = Inr (length kvs)"
| "py_len v = Inl (Fault (NoLen v))"

section \<open>services/translator.py\<close>

definition base_url :: string where
  "base_url = ''https://translation.googleapis.com/language/translate/v2''"

definition supported_languages :: "(string \<times> string) list" where
  "supported_languages = [(''wo'', ''Wolof''), (''en'', ''English'')]"

definition get_request_id :: "env \<Rightarrow> world \<Rightarrow> string \<times> world" where
  "get_request_id E s =
     (let s1 = s\<lparr>request_id := request_id s + 1\<rparr>;
          timestamp = clock E (length (log_lines s))
      in (timestamp @ ''-'' @ py_str E (JInt (request_id s1)), s1))"

definition validate_language_codes :: "string \<Rightarrow> string \<Rightarrow> world \<Rightarrow> (exn + unit) \<times> world" where
  "validate_language_codes source_lang target_lang s =
     (if map_of supported_languages source_lang = None then
        (Inl (TranslationError (''Unsupported source language: '' @ source_lang)),
         logger_error (''Unsupported source language: '' @ source_lang) s)
      else if map_of supported_languages target_lang = None then
        (Inl (TranslationError (''Unsupported target language: '' @ target_lang)),
         logger_error (''Unsupported target language: '' @ target_lang) s)
      else (Inr (), s))"

definition validate_translation_response :: "json \<Rightarrow> exn + unit" where
  "validate_translation_response response_data =
     (if \<not> is_dict response_data then
        Inl (TranslationError ''Invalid response type from translation service'')
      else (case py_contains ''data'' response_data of Inl e \<Rightarrow> Inl e | Inr has_data \<Rightarrow>
      if \<not> has_data then Inl (TranslationError ''Missing 'data' in translation response'')
      else (case py_getitem response_data ''data'' of Inl e \<Rightarrow> Inl e | Inr d \<Rightarrow>
      (case py_contains ''translations'' d of Inl e \<Rightarrow> Inl e | Inr has_translations \<Rightarrow>
      if \<not> has_translations then
        Inl (TranslationError ''Missing 'translations' in translation response'')
      else (case py_getitem d ''translations'' of Inl e \<Rightarrow> Inl e | Inr translations \<Rightarrow>
      if \<not> py_truthy translations \<or> \<not> is_list translations then
        Inl (TranslationError ''Invalid translations format in response'')
      else (case py_first translations of Inl e \<Rightarrow> Inl e | Inr t0 \<Rightarrow>
      (case py_contains ''translatedText'' t0 of Inl e \<Rightarrow> Inl e | Inr has_text \<Rightarrow>
      if \<not> has_text then Inl (TranslationError ''Missing translated text in response'')
      else Inr ())))))))"

text \<open>\<open>result['data']['translations'][0]['translatedText']\<close>.\<close>

definition translated_text :: "json \<Rightarrow> exn + json" where
  "translated_text result =
     (case py_getitem result ''data'' of Inl e \<Rightarrow> Inl e | Inr d \<Rightarrow>
      (case py_getitem d ''translations'' of Inl e \<Rightarrow> Inl e | Inr translations \<Rightarrow>
      (case py_first translations of Inl e \<Rightarrow> Inl e | Inr t0 \<Rightarrow>
      py_getitem t0 ''translatedText'')))"

text \<open>The inner \<open>try\<close> of \<open>translate\<close> (the branch for status 200), then its
  \<open>except json.JSONDecodeError\<close>.\<close>

definition parse_response ::
  "env \<Rightarrow> string \<Rightarrow> exn + json \<Rightarrow> world \<Rightarrow> (exn + json) \<times> world" where
  "parse_response E rid body s =
     (case body of Inl e \<Rightarrow> (Inl e, s) | Inr result \<Rightarrow>
      (case validate_translation_response result of Inl e \<Rightarrow> (Inl e, s) | Inr u \<Rightarrow>
      (case translated_text result of Inl e \<Rightarrow> (Inl e, s) | Inr translation \<Rightarrow>
      if \<not> py_truthy translation then
        (Inl (TranslationError ''Empty translation received''),
         logger_error (''['' @ rid @ ''] Empty translation received'') s)
      else
        let s1 = logger_info (''['' @ rid @ ''] Successfully translated text'') s
        in (case py_slice100 translation of Inl e \<Rightarrow> (Inl e, s1) | Inr shown \<Rightarrow>
           (case py_len translation of Inl e \<Rightarrow> (Inl e, s1) | Inr n \<Rightarrow>
           (Inr translation,
            logger_info (''['' @ rid @ ''] Translation result: '' @ py_str E shown
              @ (if n > 100 then ''...'' else '''')) s1))))))"

definition except_json ::
  "string \<Rightarrow> (exn + json) \<times> world \<Rightarrow> (exn + json) \<times> world" where
  "except_json rid r =
     (case r of
        (Inl (JSONDecodeError b m), s) \<Rightarrow>
          (Inl (TranslationError ''Invalid response format from translation service''),
           logger_error (''['' @ rid @ ''] Failed to parse translation response: '' @ m) s)
      | (x, s) \<Rightarrow> (x, s))"

text \<open>From the status code on: the \<open>if\<close>/\<open>elif\<close> chain over 400, 403 and any other
  status but 200.\<close>

definition handle_response ::
  "env \<Rightarrow> string \<Rightarrow> response \<Rightarrow> world \<Rightarrow> (exn + json) \<times> world" where
  "handle_response E rid resp s =
     (case resp of Response status_code body \<Rightarrow>
      let s1 = logger_info (''['' @ rid @ ''] Received response with status code: ''
                 @ py_str E (JInt status_code)) s
      in if status_code = 400 then
           (case body of Inl e \<Rightarrow> (Inl e, s1) | Inr j \<Rightarrow>
            (case py_get j ''error'' (JObj []) of Inl e \<Rightarrow> (Inl e, s1) | Inr error_data \<Rightarrow>
            (case py_get error_data ''message'' (JStr ''Invalid request'') of
              Inl e \<Rightarrow> (Inl e, s1)
            | Inr error_message \<Rightarrow>
                (Inl (TranslationError
                   (''Translation request invalid: '' @ py_str E error_message)),
                 logger_error (''['' @ rid @ ''] Translation API validation error: ''
                   @ py_str E error_message) s1))))
         else if status_code = 403 then
           (Inl (TranslationError ''Authentication failed. Please check your API key.''),
            logger_error (''['' @ rid @ ''] Translation API authentication failed'') s1)
         else if status_code \<noteq> 200 then
           (Inl (TranslationError
              (''Translation service error: HTTP '' @ py_str E (JInt status_code))),
            logger_error (''['' @ rid @ ''] Translation API error: Status ''
              @ py_str E (JInt status_code)) s1)
         else except_json rid (parse_response E rid body s1))"

text \<open>\<open>requests.post(self.base_url, params=params, timeout=10)\<close> with the four
  parameters \<open>q\<close>, \<open>source\<close>, \<open>target\<close> and \<open>key\<close>.\<close>

definition translation_call :: "env \<Rightarrow> string \<Rightarrow> string \<Rightarrow> string \<Rightarrow> http_call" where
  "translation_call E cleaned source_lang target_lang =
     Post base_url [(''q'', cleaned), (''source'', source_lang),
                    (''target'', target_lang), (''key'', api_key E)] 10"

text \<open>The body of the outer \<open>try\<close>. \<open>t\<close> is the text, known to be a non-empty
  \<open>str\<close> here.\<close>

definition translate_try ::
  "env \<Rightarrow> string \<Rightarrow> string \<Rightarrow> string \<Rightarrow> string \<Rightarrow> world \<Rightarrow> (exn + json) \<times> world" where
  "translate_try E rid t source_lang target_lang s =
     (case validate_language_codes source_lang target_lang s of
        (Inl e, s1) \<Rightarrow> (Inl e, s1)
      | (Inr u, s1) \<Rightarrow>
          let cleaned = strip t;
              call = translation_call E cleaned source_lang target_lang;
              s2 = logger_info (''['' @ rid @ ''] Sending request to translation API'') s1;
              outcome = http_post E (length (posts s2)) call;
              s3 = s2\<lparr>posts := posts s2 @ [call]\<rparr>
          in (case outcome of
               Inl e \<Rightarrow> (Inl e, s3)
             | Inr resp \<Rightarrow> handle_response E rid resp s3))"

text \<open>The three \<open>except\<close> clauses of the outer \<open>try\<close>, in the order of the source.\<close>

fun is_timeout :: "exn \<Rightarrow> bool" where
  "is_timeout (Timeout m) = True"
| "is_timeout e = False"

fun is_request_exception :: "exn \<Rightarrow> bool" where
  "is_request_exception (Timeout m) = True"
| "is_request_exception (RequestException m) = True"
| "is_request_exception (JSONDecodeError b m) = b"
| "is_request_exception e = False"

definition translate_except ::
  "env \<Rightarrow> string \<Rightarrow> (exn + json) \<times> world \<Rightarrow> (exn + json) \<times> world" where
  "translate_except E rid r =
     (case r of
        (Inr v, s) \<Rightarrow> (Inr v, s)
      | (Inl e, s) \<Rightarrow>
          if is_timeout e then
            (Inl (TranslationError ''Translation service timeout. Please try again.''),
             logger_error (''['' @ rid @ ''] Translation request timed out'') s)
          else if is_request_exception e then
            (Inl (TranslationError (''Translation service error: '' @ str_exn E e)),
             logger_error (''['' @ rid @ ''] Translation request failed: '' @ str_exn E e) s)
          else
            (Inl (TranslationError (''Translation failed: '' @ str_exn E e)),
             logger_error (''['' @ rid @ ''] Unexpected error during translation: ''
               @ str_exn E e) s))"

definition translate ::
  "env \<Rightarrow> json \<Rightarrow> string \<Rightarrow> string \<Rightarrow> world \<Rightarrow> (exn + json) \<times> world" where
  "translate E txt source_lang target_lang s =
     (if \<not> py_truthy txt \<or> \<not> is_str txt then
        (Inl (ValueError ''Text must be a non-empty string''),
         logger_error ''Invalid input: text must be a non-empty string'' s)
      else
        let t = the_str txt;
            (rid, s1) = get_request_id E s;
            s2 = logger_info (''['' @ rid @ ''] Starting translation request'') s1
        in (case map_of supported_languages source_lang of
             None \<Rightarrow> (Inl (Fault (KeyMissing (JStr source_lang))), s2)
           | Some source_name \<Rightarrow>
        (case map_of supported_languages target_lang of
             None \<Rightarrow> (Inl (Fault (KeyMissing (JStr target_lang))), s2)
           | Some target_name \<Rightarrow>
        let s3 = logger_info (''['' @ rid @ ''] From '' @ source_name @ '' to '' @ target_name) s2;
            s4 = logger_info (''['' @ rid @ ''] Input text: '' @ take 100 t
                   @ (if length t > 100 then ''...'' else '''')) s3
        in translate_except E rid (translate_try E rid t source_lang target_lang s4))))"

section \<open>services/data_model.py\<close>

definition model_name :: string where
  "model_name = ''llama3-8b-8192''"

definition query_model :: "env \<Rightarrow> string \<Rightarrow> world \<Rightarrow> (exn + json) \<times> world" where
  "query_model E prompt s =
     (let call = ChatCreate [[(''role'', ''user''), (''content'', prompt)]] model_name;
          s1 = s\<lparr>chats := chats s @ [call]\<rparr>;
          r = (case chat_create E (length (chats s)) call of
                 Inl e \<Rightarrow> Inl e
               | Inr (ChatCompletion choices) \<Rightarrow>
                   (case choices of
                      [] \<Rightarrow> Inl (Fault (IndexOutOfRange (JList [])))
                    | c # cs \<Rightarrow> Inr c))
      in (case r of
           Inr content \<Rightarrow> (Inr content, s1)
         | Inl e \<Rightarrow>
             (Inl (Exception ''Failed to query the model.''),
              logger_error (''Error querying Ollama model: '' @ str_exn E e) s1)))"

definition data_model_process_query ::
  "env \<Rightarrow> json \<Rightarrow> world \<Rightarrow> (exn + json) \<times> world" where
  "data_model_process_query E query s =
     (if \<not> py_truthy query \<or> \<not> is_str query then
        (Inl (ValueError ''Query must be a non-empty string''), s)
      else
        let cleaned_query = strip (the_str query)
        in (case query_model E cleaned_query s of
             (Inr resp, s1) \<Rightarrow>
               (Inr resp, logger_info (''Model response for query: '' @ the_str query) s1)
           | (Inl e, s1) \<Rightarrow>
               (Inl (Exception (''Query processing failed: '' @ str_exn E e)),
                logger_error (''Error processing query: '' @ str_exn E e) s1)))"

section \<open>main.py\<close>

text \<open>
  The route handler of \<open>/process\<close>. The two service objects are module-level variables of
  \<open>main.py\<close>; the handler takes their two methods as arguments, so that it can be run
  with the services of the repository as well as with substitutes. The request is the
  outcome of \<open>request.get_json()\<close>; the result is the status code and the JSON body.
\<close>

type_synonym translate_fn = "json \<Rightarrow> string \<Rightarrow> string \<Rightarrow> world \<Rightarrow> (exn + json) \<times> world"
type_synonym model_fn = "json \<Rightarrow> world \<Rightarrow> (exn + json) \<times> world"

definition process_query_try ::
  "env \<Rightarrow> translate_fn \<Rightarrow> model_fn \<Rightarrow> exn + json \<Rightarrow> world \<Rightarrow> (exn + nat \<times> json) \<times> world" where
  "process_query_try E tr pq req s =
     (case req of Inl e \<Rightarrow> (Inl e, s) | Inr data \<Rightarrow>
      (case py_get data ''query'' (JStr []) of Inl e \<Rightarrow> (Inl e, s) | Inr wolof_query \<Rightarrow>
      if \<not> py_truthy wolof_query then
        (Inr (400, JObj [(''error'', JStr ''No query provided'')]), s)
      else
        let s1 = logger_info (''Translating query from Wolof to French: ''
                   @ py_str E wolof_query) s
        in (case tr wolof_query ''wo'' ''en'' s1 of
             (Inl e, s2) \<Rightarrow> (Inl e, s2)
           | (Inr french_query, s2) \<Rightarrow>
        let s3 = logger_info (''Processing French query: '' @ py_str E french_query) s2
        in (case pq french_query s3 of
             (Inl e, s4) \<Rightarrow> (Inl e, s4)
           | (Inr french_response, s4) \<Rightarrow>
        let s5 = logger_info (''Translating response to Wolof: ''
                   @ py_str E french_response) s4
        in (case tr french_response ''en'' ''wo'' s5 of
             (Inl e, s6) \<Rightarrow> (Inl e, s6)
           | (Inr wolof_response, s6) \<Rightarrow>
               (Inr (200, JObj [(''original_query'', wolof_query),
                                (''french_query'', french_query),
                                (''french_response'', french_response),
                                (''wolof_response'', wolof_response)]), s6))))))"

definition process_query_with ::
  "env \<Rightarrow> translate_fn \<Rightarrow> model_fn \<Rightarrow> exn + json \<Rightarrow> world \<Rightarrow> (nat \<times> json) \<times> world" where
  "process_query_with E tr pq req s =
     (case process_query_try E tr pq req s of
        (Inr resp, s1) \<Rightarrow> (resp, s1)
      | (Inl e, s1) \<Rightarrow>
          ((500, JObj [(''error'', JStr (str_exn E e))]),
           logger_error (''Error processing query: '' @ str_exn E e) s1))"

text \<open>The handler as \<open>main.py\<close> runs it, on the two services of the repository.\<close>

definition process_query :: "env \<Rightarrow> exn + json \<Rightarrow> world \<Rightarrow> (nat \<times> json) \<times> world" where
  "process_query E = process_query_with E (translate E) (data_model_process_query E)"

section \<open>Classification of errors and of remote responses\<close>

text \<open>
  The two services signal an empty or ill-typed argument by \<open>ValueError\<close> (the docstring
  of \<open>translate\<close>: \<open>ValueError: If input parameters are invalid\<close>); every failure of
  the remote translation service is a \<open>TranslationError\<close>.
\<close>

fun caller_contract_violation :: "exn \<Rightarrow> bool" where
  "caller_contract_violation (ValueError m) = True"
| "caller_contract_violation e = False"

text \<open>
  The shape \<open>translate\<close> reads the translation from:
  \<open>{"data": {"translations": [{"translatedText": ...}, ...]}}\<close>. A body that lacks
  \<open>data\<close> or \<open>translations\<close>, or whose \<open>translations\<close> is empty, is not a list or
  does not start with a dict holding \<open>translatedText\<close>, is not of this shape.
\<close>

definition well_shaped :: "json \<Rightarrow> bool" where
  "well_shaped b =
     (case b of
        JObj kvs \<Rightarrow>
          (case map_of kvs ''data'' of
             Some (JObj d) \<Rightarrow>
               (case map_of d ''translations'' of
                  Some (JList (JObj t0 # xs)) \<Rightarrow> map_of t0 ''translatedText'' \<noteq> None
                | _ \<Rightarrow> False)
           | _ \<Rightarrow> False)
      | _ \<Rightarrow> False)"

section \<open>Example environments\<close>

text \<open>An environment in which both remote services are down, and the initial state of a
  process.\<close>

definition env0 :: env where
  "env0 = \<lparr>api_key = ''secret'', py_repr = (\<lambda>v. ''<repr>''), wording = (\<lambda>f. ''<fault>''),
     clock = (\<lambda>n. ''20240101120000''),
     http_post = (\<lambda>n c. Inl (Timeout ''timed out'')),
     chat_create = (\<lambda>n c. Inl (Exception ''connection refused''))\<rparr>"

definition world0 :: world where
  "world0 = \<lparr>request_id = 0, log_lines = [], posts = [], chats = []\<rparr>"

text \<open>An environment whose translation service answers every call with the given status
  and JSON body, and the body of a well-formed answer.\<close>

definition env_status :: "int \<Rightarrow> json \<Rightarrow> env" where
  "env_status code body = env0\<lparr>http_post := (\<lambda>n c. Inr (Response code (Inr body)))\<rparr>"

definition translation_body :: "json \<Rightarrow> json" where
  "translation_body v =
     JObj [(''data'', JObj [(''translations'', JList [JObj [(''translatedText'', v)]])])]"

text \<open>Substitutes for the two services: they answer as the end-to-end test of the pipeline
  prescribes and write one log line per call.\<close>

definition stub_translate :: translate_fn where
  "stub_translate txt source_lang target_lang s =
     (if txt = JStr ''Asalaa maalekum'' \<and> source_lang = ''wo'' \<and> target_lang = ''en''
        then Inr (JStr ''Hello'')
      else if txt = JStr ''Hi there'' \<and> source_lang = ''en'' \<and> target_lang = ''wo''
        then Inr (JStr ''Hi there'')
      else Inl (TranslationError ''unexpected call''),
      logger_info (''translate '' @ source_lang @ '' to '' @ target_lang) s)"

definition stub_model :: model_fn where
  "stub_model query s =
     (if query = JStr ''Hello'' then Inr (JStr ''Hi there'')
      else Inl (Exception ''unexpected call''),
      logger_info ''query model'' s)"

section \<open>What the loggers and the counter leave untouched\<close>

lemmas translate_eval =
  translate_def translate_try_def translate_except_def handle_response_def except_json_def
  parse_response_def validate_translation_response_def translated_text_def
  validate_language_codes_def get_request_id_def translation_call_def supported_languages_def
  logger_info_def logger_error_def py_str_def env_status_def translation_body_def env0_def
  world0_def Let_def

lemma posts_logger [simp]:
  "posts (logger_info m s) = posts s" "posts (logger_error m s) = posts s"
  by (simp_all add: logger_info_def logger_error_def)

lemma posts_get_request_id [simp]: "posts (snd (get_request_id E s)) = posts s"
  by (simp add: get_request_id_def Let_def)

lemma py_str_cong: "py_repr E' = py_repr E \<Longrightarrow> py_str E' v = py_str E v"
  by (simp add: py_str_def split: json.splits)

lemma str_exn_cong: "wording E' = wording E \<Longrightarrow> str_exn E' e = str_exn E e"
  by (cases e) simp_all

lemma parse_response_fst:
  "fst (parse_response E rid body s) = fst (parse_response E' rid' body s')"
  by (simp add: parse_response_def Let_def split: sum.splits)

lemma parse_response_posts [simp]:
  "posts (snd (parse_response E rid body s)) = posts s"
  by (simp add: parse_response_def Let_def split: sum.splits)

lemma except_json_fst:
  "fst r = fst r' \<Longrightarrow> fst (except_json rid r) = fst (except_json rid' r')"
  by (cases r; cases r') (auto simp: except_json_def split: sum.splits exn.splits)

lemma except_json_posts [simp]:
  "posts (snd (except_json rid r)) = posts (snd r)"
  by (cases r) (auto simp: except_json_def split: sum.splits exn.splits)

lemma handle_response_fst:
  assumes "py_repr E' = py_repr E"
  shows "fst (handle_response E rid resp s) = fst (handle_response E' rid' resp s')"
proof (cases resp)
  case (Response status_code body)
  have "fst (except_json rid (parse_response E rid body s1))
      = fst (except_json rid' (parse_response E' rid' body s1'))" for s1 s1'
    by (rule except_json_fst) (rule parse_response_fst)
  then show ?thesis
    using Response py_str_cong [OF assms]
    by (simp add: handle_response_def Let_def split: sum.splits)
qed

lemma handle_response_posts [simp]:
  "posts (snd (handle_response E rid resp s)) = posts s"
  by (cases resp) (simp add: handle_response_def Let_def split: sum.splits)

lemma translate_try_fst:
  assumes "py_repr E' = py_repr E" "http_post E' = http_post E" "api_key E' = api_key E"
    "length (posts s') = length (posts s)"
  shows "fst (translate_try E rid t a b s) = fst (translate_try E' rid' t a b s')"
  using assms handle_response_fst [OF assms(1)]
  by (auto simp: translate_try_def validate_language_codes_def translation_call_def Let_def
      split: sum.splits)

lemma translate_except_fst:
  assumes "wording E' = wording E" "fst r = fst r'"
  shows "fst (translate_except E rid r) = fst (translate_except E' rid' r')"
  using assms str_exn_cong [OF assms(1)]
  by (cases r; cases r') (auto simp: translate_except_def split: sum.splits)

lemma translate_fst:
  assumes "py_repr E' = py_repr E" "wording E' = wording E" "http_post E' = http_post E"
    "api_key E' = api_key E" "length (posts s') = length (posts s)"
  shows "fst (translate E txt a b s) = fst (translate E' txt a b s')"
proof -
  have "fst (translate_except E rid (translate_try E rid t a b s1))
      = fst (translate_except E' rid' (translate_try E' rid' t a b s1'))"
    if "length (posts s1') = length (posts s1)" for rid rid' t s1 s1'
    by (rule translate_except_fst [OF assms(2)])
       (rule translate_try_fst [OF assms(1) assms(3) assms(4) that])
  then show ?thesis
    using assms(5)
    by (simp add: translate_def Let_def split_beta split: option.splits)
qed

section \<open>The result of \<open>translate\<close>, step by step\<close>

lemma translate_reduce:
  assumes "t \<noteq> []" "map_of supported_languages a = Some x" "map_of supported_languages b = Some y"
  shows "fst (translate E (JStr t) a b s) = fst (translate_except E [] (translate_try E [] t a b s))"
  using assms
  apply (simp add: translate_def Let_def split_beta split del: if_split)
  apply (rule translate_except_fst [OF refl])
  apply (rule translate_try_fst [OF refl refl refl])
  apply simp
  done

lemma translate_try_reduce:
  assumes "map_of supported_languages a = Some x" "map_of supported_languages b = Some y"
  shows "fst (translate_try E rid t a b s) =
     (case http_post E (length (posts s)) (translation_call E (strip t) a b) of
        Inl e \<Rightarrow> Inl e
      | Inr resp \<Rightarrow> fst (handle_response E rid resp s))"
  using assms
  by (auto simp: translate_try_def validate_language_codes_def Let_def
      split: sum.splits intro: handle_response_fst [OF refl])

lemma translate_try_posts:
  "posts (snd (translate_try E rid t a b s)) =
     (if map_of supported_languages a \<noteq> None \<and> map_of supported_languages b \<noteq> None
      then posts s @ [translation_call E (strip t) a b] else posts s)"
  by (auto simp: translate_try_def validate_language_codes_def Let_def split: sum.splits)

lemma translate_except_posts [simp]:
  "posts (snd (translate_except E rid r)) = posts (snd r)"
  by (cases r) (auto simp: translate_except_def split: sum.splits)

lemma translate_posts:
  "posts (snd (translate E txt a b s)) =
     (if py_truthy txt \<and> is_str txt \<and> map_of supported_languages a \<noteq> None
         \<and> map_of supported_languages b \<noteq> None
      then posts s @ [translation_call E (strip (the_str txt)) a b] else posts s)"
  by (auto simp: translate_def Let_def split_beta translate_try_posts split: option.splits)

lemma translate_posts_prefix: "prefix (posts s) (posts (snd (translate E txt a b s)))"
  by (simp add: translate_posts)

lemma translate_unsupported_source:
  assumes "t \<noteq> []" "map_of supported_languages source_lang = None"
  shows "translate E (JStr t) source_lang target_lang s =
     (Inl (Fault (KeyMissing (JStr source_lang))),
      logger_info (''['' @ fst (get_request_id E s) @ ''] Starting translation request'')
        (snd (get_request_id E s)))"
  using assms by (simp add: translate_def Let_def split: prod.splits)

lemma translate_except_Inl_eq:
  assumes "fst r = Inl e"
  shows "fst (translate_except E rid r) =
     (if is_timeout e then Inl (TranslationError ''Translation service timeout. Please try again.'')
      else if is_request_exception e then
        Inl (TranslationError (''Translation service error: '' @ str_exn E e))
      else Inl (TranslationError (''Translation failed: '' @ str_exn E e)))"
  using assms by (cases r) (auto simp: translate_except_def)

lemma translate_except_wraps:
  assumes "fst r = Inl e"
  shows "\<exists>m. fst (translate_except E rid r) = Inl (TranslationError m)"
  using assms by (cases r) (auto simp: translate_except_def)

lemma translate_except_not_ValueError:
  "fst (translate_except E rid r) \<noteq> Inl (ValueError m)"
proof (cases "fst r")
  case (Inl e)
  from translate_except_wraps [OF this, of E rid] show ?thesis by auto
next
  case (Inr v)
  then show ?thesis by (cases r) (simp add: translate_except_def)
qed

section \<open>The shape of the response\<close>

lemma py_getitem_Inr: "py_getitem v k = Inr x \<Longrightarrow> \<exists>kvs. v = JObj kvs \<and> map_of kvs k = Some x"
  by (cases v) (auto split: option.splits)

lemma py_first_JObj: "py_first v = Inr (JObj t0) \<Longrightarrow> \<exists>xs. v = JList (JObj t0 # xs)"
  by (cases v rule: py_first.cases) auto

lemma translated_text_shape:
  assumes "translated_text b = Inr v"
  shows "\<exists>bk dk t0 xs. b = JObj bk \<and> map_of bk ''data'' = Some (JObj dk)
     \<and> map_of dk ''translations'' = Some (JList (JObj t0 # xs))
     \<and> map_of t0 ''translatedText'' = Some v"
proof -
  from assms obtain d where d: "py_getitem b ''data'' = Inr d"
    by (auto simp: translated_text_def split: sum.splits)
  with assms obtain ts where ts: "py_getitem d ''translations'' = Inr ts"
    by (auto simp: translated_text_def split: sum.splits)
  with assms d obtain x where x: "py_first ts = Inr x"
    and v: "py_getitem x ''translatedText'' = Inr v"
    by (auto simp: translated_text_def split: sum.splits)
  from py_getitem_Inr [OF v] obtain t0 where
    t0: "x = JObj t0" "map_of t0 ''translatedText'' = Some v"
    by blast
  from py_first_JObj x t0 obtain xs where xs: "ts = JList (JObj t0 # xs)" by blast
  from py_getitem_Inr [OF ts] obtain dk where
    dk: "d = JObj dk" "map_of dk ''translations'' = Some ts"
    by blast
  from py_getitem_Inr [OF d] obtain bk where bk: "b = JObj bk" "map_of bk ''data'' = Some d"
    by blast
  show ?thesis using bk dk xs t0 by simp
qed

lemma translated_text_well_shaped:
  assumes "translated_text b = Inr v"
  shows "well_shaped b"
  using translated_text_shape [OF assms] by (auto simp: well_shaped_def)

lemma validate_translation_response_ok:
  assumes "translated_text b = Inr v"
  shows "validate_translation_response b = Inr ()"
proof -
  from translated_text_shape [OF assms] obtain bk dk t0 xs where
    "b = JObj bk" "map_of bk ''data'' = Some (JObj dk)"
    "map_of dk ''translations'' = Some (JList (JObj t0 # xs))"
    "map_of t0 ''translatedText'' = Some v"
    by blast
  then show ?thesis
    by (simp add: validate_translation_response_def)
qed

lemma parse_response_Inr:
  assumes "fst (parse_response E rid body s) = Inr v"
  shows "\<exists>result. body = Inr result \<and> translated_text result = Inr v \<and> py_truthy v
           \<and> ((\<exists>t. v = JStr t) \<or> (\<exists>xs. v = JList xs))"
proof -
  from assms obtain result where r: "body = Inr result"
    by (cases body) (auto simp: parse_response_def)
  with assms obtain w where w: "translated_text result = Inr w"
    by (cases "translated_text result") (auto simp: parse_response_def split: sum.splits)
  with assms r have t: "py_truthy w" "w = v"
    by (auto simp: parse_response_def Let_def split: sum.splits if_splits)
  with assms r w obtain sh where "py_slice100 v = Inr sh"
    by (cases "py_slice100 v") (auto simp: parse_response_def Let_def split: sum.splits if_splits)
  then have "(\<exists>t. v = JStr t) \<or> (\<exists>xs. v = JList xs)"
    by (cases v) auto
  with r w t show ?thesis by simp
qed

lemma parse_response_not_well_shaped:
  assumes "\<not> well_shaped b"
  shows "\<exists>e. fst (parse_response E rid (Inr b) s) = Inl e"
proof (cases "fst (parse_response E rid (Inr b) s)")
  case (Inl e)
  then show ?thesis by blast
next
  case (Inr v)
  from parse_response_Inr [OF this] have "well_shaped b"
    by (auto dest: translated_text_well_shaped)
  with assms show ?thesis by simp
qed

lemma except_json_Inl: "fst r = Inl e \<Longrightarrow> \<exists>e'. fst (except_json rid r) = Inl e'"
  by (cases r) (auto simp: except_json_def split: sum.splits exn.splits)

lemma translate_except_Inr_eq:
  assumes "fst r = Inr v"
  shows "fst (translate_except E rid r) = Inr v"
  using assms by (cases r) (auto simp: translate_except_def)

lemma translate_200_list:
  assumes "t \<noteq> []" "map_of supported_languages a = Some x" "map_of supported_languages b = Some y"
    "http_post E (length (posts s)) (translation_call E (strip t) a b)
       = Inr (Response 200 (Inr body))"
    "translated_text body = Inr (JList xs)" "xs \<noteq> []"
  shows "fst (translate E (JStr t) a b s) = Inr (JList xs)"
proof -
  have "fst (parse_response E [] (Inr body) s1) = Inr (JList xs)" for s1
    using assms(5,6)
    by (simp add: parse_response_def validate_translation_response_ok Let_def)
  then have "fst (handle_response E [] (Response 200 (Inr body)) s) = Inr (JList xs)"
    by (simp add: handle_response_def Let_def except_json_def split_beta
        split: sum.splits exn.splits prod.splits)
  then have "fst (translate_try E [] t a b s) = Inr (JList xs)"
    by (simp add: translate_try_reduce [OF assms(2,3)] assms(4))
  from translate_except_Inr_eq [OF this] show ?thesis
    by (simp add: translate_reduce [OF assms(1-3)])
qed

lemma translate_200_malformed:
  assumes "t \<noteq> []" "map_of supported_languages a = Some x" "map_of supported_languages b = Some y"
    "http_post E (length (posts s)) (translation_call E (strip t) a b)
       = Inr (Response 200 (Inr body))"
    "\<not> well_shaped body"
  shows "\<exists>m. fst (translate E (JStr t) a b s) = Inl (TranslationError m)"
proof -
  from parse_response_not_well_shaped [OF assms(5)] obtain e where
    "fst (parse_response E [] (Inr body)
       (logger_info (''[] Received response with status code: '' @ py_str E (JInt 200)) s)) = Inl e"
    by blast
  from except_json_Inl [OF this] obtain e' where
    "fst (handle_response E [] (Response 200 (Inr body)) s) = Inl e'"
    by (auto simp: handle_response_def Let_def)
  then have "fst (translate_try E [] t a b s) = Inl e'"
    by (simp add: translate_try_reduce [OF assms(2,3)] assms(4))
  from translate_except_wraps [OF this] show ?thesis
    by (simp add: translate_reduce [OF assms(1-3)])
qed

lemma translate_200_empty:
  assumes "t \<noteq> []" "map_of supported_languages a = Some x" "map_of supported_languages b = Some y"
    "http_post E (length (posts s)) (translation_call E (strip t) a b)
       = Inr (Response 200 (Inr body))"
    "translated_text body = Inr w" "\<not> py_truthy w"
  shows "fst (translate E (JStr t) a b s) =
     Inl (TranslationError ''Translation failed: Empty translation received'')"
proof -
  have "fst (parse_response E [] (Inr body) s1)
      = Inl (TranslationError ''Empty translation received'')" for s1
    using assms(5,6)
    by (simp add: parse_response_def validate_translation_response_ok)
  then have "fst (handle_response E [] (Response 200 (Inr body)) s) =
      Inl (TranslationError ''Empty translation received'')"
    by (simp add: handle_response_def Let_def except_json_def split_beta
        split: sum.splits exn.splits prod.splits)
  then have "fst (translate_try E [] t a b s)
      = Inl (TranslationError ''Empty translation received'')"
    by (simp add: translate_try_reduce [OF assms(2,3)] assms(4))
  from translate_except_Inl_eq [OF this] show ?thesis
    by (simp add: translate_reduce [OF assms(1-3)])
qed

lemma translate_403:
  assumes "t \<noteq> []" "map_of supported_languages a = Some x" "map_of supported_languages b = Some y"
    "http_post E (length (posts s)) (translation_call E (strip t) a b) = Inr (Response 403 body)"
  shows "fst (translate E (JStr t) a b s) =
     Inl (TranslationError ''Translation failed: Authentication failed. Please check your API key.'')"
proof -
  have "fst (translate_try E [] t a b s) =
      Inl (TranslationError ''Authentication failed. Please check your API key.'')"
    by (simp add: translate_try_reduce [OF assms(2,3)] assms(4) handle_response_def Let_def)
  from translate_except_Inl_eq [OF this] show ?thesis
    by (simp add: translate_reduce [OF assms(1-3)])
qed

section \<open>The model client and the handler\<close>

lemma strip_spaces:
  assumes "\<forall>c\<in>set t. is_space c"
  shows "strip t = []"
  using assms by (auto simp: strip_def dest: set_dropWhileD)

lemma query_model_Inl:
  "fst (query_model E prompt s) = Inl e \<Longrightarrow> e = Exception ''Failed to query the model.''"
  by (auto simp: query_model_def Let_def split: sum.splits completion.splits list.splits)

lemma query_model_posts [simp]: "posts (snd (query_model E prompt s)) = posts s"
  by (simp add: query_model_def Let_def split: sum.splits completion.splits list.splits)

lemma data_model_process_query_posts [simp]:
  "posts (snd (data_model_process_query E query s)) = posts s"
  by (simp add: data_model_process_query_def Let_def split_beta split: sum.splits)

lemma process_query_status:
  assumes "map_of kvs ''query'' = Some v" "py_truthy v"
  shows "fst (fst (process_query E (Inr (JObj kvs)) s)) = 200
       \<or> fst (fst (process_query E (Inr (JObj kvs)) s)) = 500"
  using assms
  by (simp add: process_query_def process_query_with_def process_query_try_def Let_def split_beta
      split: sum.splits prod.splits)

lemma process_query_posts_prefix:
  assumes "map_of kvs ''query'' = Some v" "py_truthy v"
  shows "prefix (posts (snd (translate E v ''wo'' ''en''
                  (logger_info (''Translating query from Wolof to French: '' @ py_str E v) s))))
           (posts (snd (process_query E (Inr (JObj kvs)) s)))"
  using assms
  by (auto simp: process_query_def process_query_with_def process_query_try_def Let_def
      split_beta translate_posts split: sum.splits)

section \<open>The claims\<close>

text \<open>
  C1. With the two services replaced by substitutes that answer \<open>Hello\<close> to the
  translation of \<open>Asalaa maalekum\<close> from \<open>wo\<close> to \<open>en\<close>, \<open>Hi there\<close> to the
  prompt \<open>Hello\<close> and \<open>Hi there\<close> to the translation of \<open>Hi there\<close> from \<open>en\<close>
  to \<open>wo\<close>, the handler answers the query \<open>Asalaa maalekum\<close> with status 200 and
  exactly the four fields \<open>original_query\<close>, \<open>french_query\<close>, \<open>french_response\<close>
  and \<open>wolof_response\<close>. The state it leaves is the one obtained by running the three
  steps in the order translate, query the model, translate back, each on the state the
  previous step left.
\<close>

theorem process_pipeline_stubbed:
  assumes "\<And>s. fst (tr (JStr ''Asalaa maalekum'') ''wo'' ''en'' s) = Inr (JStr ''Hello'')"
    and "\<And>s. fst (pq (JStr ''Hello'') s) = Inr (JStr ''Hi there'')"
    and "\<And>s. fst (tr (JStr ''Hi there'') ''en'' ''wo'' s) = Inr (JStr ''Hi there'')"
  shows "process_query_with E tr pq (Inr (JObj [(''query'', JStr ''Asalaa maalekum'')])) s =
     ((200, JObj [(''original_query'', JStr ''Asalaa maalekum''),
                  (''french_query'', JStr ''Hello''),
                  (''french_response'', JStr ''Hi there''),
                  (''wolof_response'', JStr ''Hi there'')]),
      snd (tr (JStr ''Hi there'') ''en'' ''wo''
        (logger_info ''Translating response to Wolof: Hi there''
          (snd (pq (JStr ''Hello'')
            (logger_info ''Processing French query: Hello''
              (snd (tr (JStr ''Asalaa maalekum'') ''wo'' ''en''
                (logger_info ''Translating query from Wolof to French: Asalaa maalekum''
                   s)))))))))"
  using assms
  by (simp add: process_query_with_def process_query_try_def Let_def split_beta py_str_def
      split: sum.splits prod.splits)

theorem process_pipeline_stubbed_witness:
  "process_query_with env0 stub_translate stub_model
     (Inr (JObj [(''query'', JStr ''Asalaa maalekum'')])) world0 =
     ((200, JObj [(''original_query'', JStr ''Asalaa maalekum''),
                  (''french_query'', JStr ''Hello''),
                  (''french_response'', JStr ''Hi there''),
                  (''wolof_response'', JStr ''Hi there'')]),
      world0\<lparr>log_lines :=
        [(INFO, ''Translating query from Wolof to French: Asalaa maalekum''),
         (INFO, ''translate wo to en''),
         (INFO, ''Processing French query: Hello''),
         (INFO, ''query model''),
         (INFO, ''Translating response to Wolof: Hi there''),
         (INFO, ''translate en to wo'')]\<rparr>)"
proof -
  have 1: "\<And>s. fst (stub_translate (JStr ''Asalaa maalekum'') ''wo'' ''en'' s) = Inr (JStr ''Hello'')"
    by (simp add: stub_translate_def)
  have 2: "\<And>s. fst (stub_model (JStr ''Hello'') s) = Inr (JStr ''Hi there'')"
    by (simp add: stub_model_def)
  have 3: "\<And>s. fst (stub_translate (JStr ''Hi there'') ''en'' ''wo'' s) = Inr (JStr ''Hi there'')"
    by (simp add: stub_translate_def)
  show ?thesis
    by (simp add: process_pipeline_stubbed [of stub_translate stub_model, OF 1 2 3])
       (simp add: stub_translate_def stub_model_def logger_info_def world0_def)
qed

text \<open>
  C2. The claim: a call \<open>translate(text, "xx", "en")\<close> with a non-empty text fails with
  a caller-contract violation and makes no network call. The code makes no network call,
  but the error it raises is neither a caller-contract violation nor the
  \<open>TranslationError\<close> that the docstrings of \<open>translate\<close> and of
  \<open>validate_language_codes\<close> announce: the log line written before the \<open>try\<close> block
  looks \<open>xx\<close> up in \<open>supported_languages\<close>, the lookup raises a \<open>KeyError\<close>, and
  \<open>validate_language_codes\<close> is never reached. For every non-empty text the result is
  that \<open>KeyError\<close>.
\<close>

theorem translate_unsupported_language_keyerror:
  assumes "t \<noteq> []"
  shows "fst (translate E (JStr t) ''xx'' ''en'' s) = Inl (Fault (KeyMissing (JStr ''xx'')))
      \<and> \<not> caller_contract_violation (Fault (KeyMissing (JStr ''xx'')))
      \<and> (\<forall>m. fst (translate E (JStr t) ''xx'' ''en'' s) \<noteq> Inl (TranslationError m))
      \<and> posts (snd (translate E (JStr t) ''xx'' ''en'' s)) = posts s"
proof -
  have "map_of supported_languages ''xx'' = None" by (simp add: supported_languages_def)
  from translate_unsupported_source [OF assms this]
  show ?thesis by simp
qed

theorem translate_unsupported_language_keyerror_witness:
  "fst (translate env0 (JStr ''hello'') ''xx'' ''en'' world0)
     = Inl (Fault (KeyMissing (JStr ''xx'')))
   \<and> posts (snd (translate env0 (JStr ''hello'') ''xx'' ''en'' world0)) = []"
proof -
  have n: "''hello'' \<noteq> []" by simp
  from translate_unsupported_language_keyerror [OF n, of env0 world0]
  show ?thesis by (simp add: world0_def)
qed

text \<open>
  C3, as the claim states it, fails: when the model call fails, the error that
  \<open>process_query\<close> of the model client raises does not contain the text of the query.
\<close>

theorem process_query_rewraps_failure_counterexample:
  "fst (data_model_process_query env0 (JStr ''abc'') world0) =
     Inl (Exception ''Query processing failed: Failed to query the model.'')
   \<and> \<not> is_substring ''abc'' ''Query processing failed: Failed to query the model.''"
  by (simp add: data_model_process_query_def query_model_def env0_def world0_def Let_def
      strip_def is_space_def)

text \<open>
  C3, amended. For every non-empty string query, whenever \<open>query_model\<close> raises an
  error, \<open>process_query\<close> of the model client raises a new error whose message is
  \<open>Query processing failed: \<close> followed by the message of that error, which is always
  \<open>Failed to query the model.\<close>; the text of the query is not added.
\<close>

theorem process_query_rewraps_failure:
  assumes "q \<noteq> []" "fst (query_model E (strip q) s) = Inl e"
  shows "e = Exception ''Failed to query the model.'' \<and>
     fst (data_model_process_query E (JStr q) s) =
       Inl (Exception (''Query processing failed: '' @ str_exn E e)) \<and>
     fst (data_model_process_query E (JStr q) s) =
       Inl (Exception ''Query processing failed: Failed to query the model.'')"
proof -
  from query_model_Inl [OF assms(2)] have e: "e = Exception ''Failed to query the model.''" .
  have "fst (data_model_process_query E (JStr q) s) =
       Inl (Exception (''Query processing failed: '' @ str_exn E e))"
    using assms by (simp add: data_model_process_query_def Let_def split_beta)
  with e show ?thesis by simp
qed

theorem process_query_rewraps_failure_witness:
  "fst (query_model env0 (strip ''abc'') world0) = Inl (Exception ''Failed to query the model.'')
   \<and> fst (data_model_process_query env0 (JStr ''abc'') world0) =
       Inl (Exception ''Query processing failed: Failed to query the model.'')"
proof -
  have q: "fst (query_model env0 (strip ''abc'') world0)
      = Inl (Exception ''Failed to query the model.'')"
    by (simp add: query_model_def env0_def Let_def)
  have n: "''abc'' \<noteq> []" by simp
  from process_query_rewraps_failure [OF n q] q show ?thesis by simp
qed

text \<open>
  C4. For every source and target, \<open>translate("", source, target)\<close> fails with the
  \<open>ValueError\<close> \<open>Text must be a non-empty string\<close>, a caller-contract violation and
  not a \<open>TranslationError\<close>; no network call is made and the request counter is not
  touched.
\<close>

theorem translate_empty_text_rejected:
  "fst (translate E (JStr []) source_lang target_lang s)
     = Inl (ValueError ''Text must be a non-empty string'')
   \<and> caller_contract_violation (ValueError ''Text must be a non-empty string'')
   \<and> posts (snd (translate E (JStr []) source_lang target_lang s)) = posts s
   \<and> request_id (snd (translate E (JStr []) source_lang target_lang s)) = request_id s"
  by (simp add: translate_def logger_error_def)

theorem translate_empty_text_rejected_witness:
  "fst (translate env0 (JStr []) ''wo'' ''xx'' world0)
     = Inl (ValueError ''Text must be a non-empty string'')
   \<and> posts (snd (translate env0 (JStr []) ''wo'' ''xx'' world0)) = []"
  using translate_empty_text_rejected [of env0 "''wo''" "''xx''" world0]
  by (simp add: world0_def)

text \<open>
  C5. The claim: whenever \<open>translate\<close> returns normally, the value returned is a
  non-empty string. The code does not keep it: \<open>validate_translation_response\<close> checks
  the types of the response and of \<open>translations\<close> but not the type of
  \<open>translatedText\<close>. For a non-empty text and a supported pair of languages, when the
  remote service answers 200 with a non-empty list in \<open>translatedText\<close>,
  \<open>translate\<close> returns that list, against its annotation and docstring
  (\<open>Returns: str\<close>).
\<close>

theorem translate_returns_list:
  assumes "t \<noteq> []" "map_of supported_languages a = Some x" "map_of supported_languages b = Some y"
    "http_post E (length (posts s)) (translation_call E (strip t) a b)
       = Inr (Response 200 (Inr (translation_body (JList xs))))"
    "xs \<noteq> []"
  shows "fst (translate E (JStr t) a b s) = Inr (JList xs) \<and> \<not> is_str (JList xs)"
proof -
  have "translated_text (translation_body (JList xs)) = Inr (JList xs)"
    by (simp add: translated_text_def translation_body_def)
  from translate_200_list [OF assms(1-4) this assms(5)] show ?thesis by simp
qed

theorem translate_returns_list_witness:
  "fst (translate (env_status 200 (translation_body (JList [JStr ''a''])))
         (JStr ''hello'') ''wo'' ''en'' world0) = Inr (JList [JStr ''a''])
   \<and> \<not> is_str (JList [JStr ''a''])"
proof -
  have n: "''hello'' \<noteq> []" by simp
  have wo: "map_of supported_languages ''wo'' = Some ''Wolof''"
    and en: "map_of supported_languages ''en'' = Some ''English''"
    by (simp_all add: supported_languages_def)
  have p: "http_post (env_status 200 (translation_body (JList [JStr ''a''])))
         (length (posts world0))
         (translation_call (env_status 200 (translation_body (JList [JStr ''a''])))
            (strip ''hello'') ''wo'' ''en'')
       = Inr (Response 200 (Inr (translation_body (JList [JStr ''a'']))))"
    by (simp add: env_status_def)
  have nonempty: "[JStr ''a''] \<noteq> []" by simp
  from translate_returns_list [OF n wo en p nonempty] show ?thesis .
qed

text \<open>
  C6. For a non-empty text and a supported pair of languages, when the remote service
  answers with status 200 and a JSON body that is not of the expected shape (it lacks
  \<open>data\<close> or \<open>translations\<close>, or \<open>translations\<close> is empty, is not a list or does
  not start with a dict holding \<open>translatedText\<close>), \<open>translate\<close> fails with a
  \<open>TranslationError\<close>: no other exception leaves the function.
\<close>

theorem translate_malformed_response_fails:
  assumes "t \<noteq> []" "map_of supported_languages a = Some x" "map_of supported_languages b = Some y"
    "http_post E (length (posts s)) (translation_call E (strip t) a b)
       = Inr (Response 200 (Inr body))"
    "\<not> well_shaped body"
  shows "\<exists>m. fst (translate E (JStr t) a b s) = Inl (TranslationError m)"
  using assms by (rule translate_200_malformed)

theorem translate_malformed_response_fails_witness:
  "\<not> well_shaped (JObj [(''data'', JObj [])])
   \<and> (\<exists>m. fst (translate (env_status 200 (JObj [(''data'', JObj [])]))
               (JStr ''hello'') ''wo'' ''en'' world0) = Inl (TranslationError m))
   \<and> fst (translate (env_status 200 (JObj [(''data'', JObj [])]))
               (JStr ''hello'') ''wo'' ''en'' world0)
       = Inl (TranslationError
           ''Translation failed: Missing 'translations' in translation response'')"
proof -
  have n: "''hello'' \<noteq> []" by simp
  have wo: "map_of supported_languages ''wo'' = Some ''Wolof''"
    and en: "map_of supported_languages ''en'' = Some ''English''"
    by (simp_all add: supported_languages_def)
  have p: "http_post (env_status 200 (JObj [(''data'', JObj [])])) (length (posts world0))
         (translation_call (env_status 200 (JObj [(''data'', JObj [])]))
            (strip ''hello'') ''wo'' ''en'')
       = Inr (Response 200 (Inr (JObj [(''data'', JObj [])])))"
    by (simp add: env_status_def)
  have w: "\<not> well_shaped (JObj [(''data'', JObj [])])"
    by (simp add: well_shaped_def)
  have v: "fst (translate (env_status 200 (JObj [(''data'', JObj [])]))
               (JStr ''hello'') ''wo'' ''en'' world0)
       = Inl (TranslationError
           ''Translation failed: Missing 'translations' in translation response'')"
    by (simp add: translate_eval)
  from translate_malformed_response_fails [OF n wo en p w] w v show ?thesis by blast
qed

text \<open>
  C7. For a non-empty text and a supported pair of languages, when the remote service
  answers with status 403, \<open>translate\<close> fails with a \<open>TranslationError\<close> whose
  message, after the re-wrapping by the last \<open>except\<close> clause, is
  \<open>Translation failed: Authentication failed. Please check your API key.\<close>: it still
  names the authentication failure and the API key.
\<close>

theorem translate_403_authentication:
  assumes "t \<noteq> []" "map_of supported_languages a = Some x" "map_of supported_languages b = Some y"
    "http_post E (length (posts s)) (translation_call E (strip t) a b) = Inr (Response 403 body)"
  shows "fst (translate E (JStr t) a b s) =
       Inl (TranslationError
         ''Translation failed: Authentication failed. Please check your API key.'')
     \<and> is_substring ''Authentication failed''
         ''Translation failed: Authentication failed. Please check your API key.''
     \<and> is_substring ''API key''
         ''Translation failed: Authentication failed. Please check your API key.''"
  using translate_403 [OF assms] by simp

theorem translate_403_authentication_witness:
  "fst (translate (env_status 403 JNull) (JStr ''hello'') ''wo'' ''en'' world0) =
     Inl (TranslationError
       ''Translation failed: Authentication failed. Please check your API key.'')"
proof -
  have n: "''hello'' \<noteq> []" by simp
  have wo: "map_of supported_languages ''wo'' = Some ''Wolof''"
    and en: "map_of supported_languages ''en'' = Some ''English''"
    by (simp_all add: supported_languages_def)
  have p: "http_post (env_status 403 JNull) (length (posts world0))
         (translation_call (env_status 403 JNull) (strip ''hello'') ''wo'' ''en'')
       = Inr (Response 403 (Inr JNull))"
    by (simp add: env_status_def)
  from translate_403_authentication [OF n wo en p] show ?thesis by blast
qed

text \<open>
  C8. The request counter has no effect on what \<open>translate\<close> does: with the same
  arguments and the same remote service, the result (the value returned, or the error
  raised with its message) and the network calls made are the same whatever the value of
  the counter and whatever the clock shows; and each call of \<open>get_request_id\<close> adds
  exactly one to the counter.
\<close>

theorem request_counter_no_effect:
  "fst (translate (E\<lparr>clock := c\<rparr>) inp a b (s\<lparr>request_id := n\<rparr>)) = fst (translate E inp a b s)
   \<and> posts (snd (translate (E\<lparr>clock := c\<rparr>) inp a b (s\<lparr>request_id := n\<rparr>)))
       = posts (snd (translate E inp a b s))
   \<and> request_id (snd (get_request_id E s)) = request_id s + 1"
proof -
  have "fst (translate E inp a b s)
      = fst (translate (E\<lparr>clock := c\<rparr>) inp a b (s\<lparr>request_id := n\<rparr>))"
    by (rule translate_fst) simp_all
  then show ?thesis
    by (simp add: translate_posts translation_call_def get_request_id_def Let_def)
qed

theorem request_counter_no_effect_witness:
  "fst (translate (env_status 200 (translation_body (JStr ''Hello''))\<lparr>clock := (\<lambda>k. ''19991231235959'')\<rparr>)
          (JStr ''Asalaa maalekum'') ''wo'' ''en'' (world0\<lparr>request_id := 41\<rparr>))
     = Inr (JStr ''Hello'')
   \<and> fst (translate (env_status 200 (translation_body (JStr ''Hello'')))
          (JStr ''Asalaa maalekum'') ''wo'' ''en'' world0)
     = Inr (JStr ''Hello'')
   \<and> request_id (snd (get_request_id env0 (world0\<lparr>request_id := 41\<rparr>))) = 42"
proof -
  have r: "fst (translate (env_status 200 (translation_body (JStr ''Hello'')))
          (JStr ''Asalaa maalekum'') ''wo'' ''en'' world0) = Inr (JStr ''Hello'')"
    by (simp add: translate_eval)
  from request_counter_no_effect
    [where E = "env_status 200 (translation_body (JStr ''Hello''))"
       and c = "\<lambda>k. ''19991231235959''" and inp = "JStr ''Asalaa maalekum''"
       and a = "''wo''" and b = "''en''" and s = world0 and n = 41]
    request_counter_no_effect [where E = env0 and s = "world0\<lparr>request_id := 41\<rparr>"]
    r
  show ?thesis by simp
qed

text \<open>
  C9. A text made of whitespace only is not rejected as a caller-contract violation: for
  a supported pair of languages, \<open>translate\<close> does not raise a \<open>ValueError\<close>, the
  text is trimmed to the empty string, and the network call is made with an empty
  \<open>q\<close>. The handler does not answer such a query with status 400: it enters the
  pipeline, whose first network call carries the empty \<open>q\<close>.
\<close>

theorem whitespace_text_reaches_remote:
  assumes "t \<noteq> []" "\<forall>c\<in>set t. is_space c"
    "map_of supported_languages a = Some x" "map_of supported_languages b = Some y"
    "map_of kvs ''query'' = Some (JStr t)"
  shows "(\<forall>m. fst (translate E (JStr t) a b s) \<noteq> Inl (ValueError m))
     \<and> strip t = []
     \<and> posts (snd (translate E (JStr t) a b s)) = posts s @ [translation_call E [] a b]
     \<and> fst (fst (process_query E (Inr (JObj kvs)) s)) \<noteq> 400
     \<and> prefix (posts s @ [translation_call E [] ''wo'' ''en''])
          (posts (snd (process_query E (Inr (JObj kvs)) s)))"
proof -
  have st: "strip t = []" by (rule strip_spaces [OF assms(2)])
  have nv: "fst (translate E (JStr t) a b s) \<noteq> Inl (ValueError m)" for m
    by (simp add: translate_reduce [OF assms(1,3,4)] translate_except_not_ValueError)
  have po: "posts (snd (translate E (JStr t) a b s)) = posts s @ [translation_call E [] a b]"
    using assms(1,3,4) by (simp add: translate_posts st)
  have tr: "py_truthy (JStr t)" using assms(1) by simp
  from process_query_status [OF assms(5) tr, of E s]
  have status: "fst (fst (process_query E (Inr (JObj kvs)) s)) \<noteq> 400" by auto
  from process_query_posts_prefix [OF assms(5) tr, of E s]
  have "prefix (posts s @ [translation_call E [] ''wo'' ''en''])
          (posts (snd (process_query E (Inr (JObj kvs)) s)))"
    using assms(1) by (simp add: translate_posts st supported_languages_def)
  with nv st po status show ?thesis by blast
qed

theorem whitespace_text_reaches_remote_witness:
  "strip '' '' = []
   \<and> posts (snd (translate env0 (JStr '' '') ''wo'' ''en'' world0))
       = [Post base_url [(''q'', []), (''source'', ''wo''), (''target'', ''en''),
                         (''key'', ''secret'')] 10]
   \<and> fst (fst (process_query env0 (Inr (JObj [(''query'', JStr '' '')])) world0)) \<noteq> 400
   \<and> prefix [Post base_url [(''q'', []), (''source'', ''wo''), (''target'', ''en''),
                            (''key'', ''secret'')] 10]
        (posts (snd (process_query env0 (Inr (JObj [(''query'', JStr '' '')])) world0)))"
proof -
  have n: "'' '' \<noteq> []" by simp
  have sp: "\<forall>c\<in>set '' ''. is_space c" by (simp add: is_space_def)
  have wo: "map_of supported_languages ''wo'' = Some ''Wolof''"
    and en: "map_of supported_languages ''en'' = Some ''English''"
    by (simp_all add: supported_languages_def)
  have q: "map_of [(''query'', JStr '' '')] ''query'' = Some (JStr '' '')" by simp
  from whitespace_text_reaches_remote [OF n sp wo en q, of env0 world0]
  show ?thesis
    by (simp add: translation_call_def env0_def world0_def)
qed

text \<open>
  C10. When the \<open>query\<close> field of the request holds a truthy value that is not a string,
  the handler does not answer 400: the value passes the check for an empty query,
  \<open>translate\<close> rejects it with the \<open>ValueError\<close> \<open>Text must be a non-empty string\<close>
  before any network call, and the handler answers with status 500 and that message.
\<close>

theorem non_string_query_server_error:
  assumes "map_of kvs ''query'' = Some v" "py_truthy v" "\<not> is_str v"
  shows "fst (process_query E (Inr (JObj kvs)) s) =
       (500, JObj [(''error'', JStr ''Text must be a non-empty string'')])
     \<and> fst (translate E v ''wo'' ''en'' s) = Inl (ValueError ''Text must be a non-empty string'')
     \<and> posts (snd (process_query E (Inr (JObj kvs)) s)) = posts s"
  using assms
  by (simp add: process_query_def process_query_with_def process_query_try_def translate_def
      Let_def)

theorem non_string_query_server_error_witness:
  "fst (process_query env0 (Inr (JObj [(''query'', JInt 5)])) world0) =
       (500, JObj [(''error'', JStr ''Text must be a non-empty string'')])
   \<and> fst (process_query env0 (Inr (JObj [(''query'', JList [JStr ''a''])])) world0) =
       (500, JObj [(''error'', JStr ''Text must be a non-empty string'')])"
proof -
  have a: "map_of [(''query'', JInt 5)] ''query'' = Some (JInt 5)" by simp
  have b: "map_of [(''query'', JList [JStr ''a''])] ''query'' = Some (JList [JStr ''a''])" by simp
  have ta: "py_truthy (JInt 5)" and tb: "py_truthy (JList [JStr ''a''])" by simp_all
  have sa: "\<not> is_str (JInt 5)" and sb: "\<not> is_str (JList [JStr ''a''])" by simp_all
  from non_string_query_server_error [OF a ta sa, of env0 world0]
    non_string_query_server_error [OF b tb sb, of env0 world0]
  show ?thesis by blast
qed

end
